theory Spec2Isabelle
  imports Complex_Main "HOL-Library.Multiset"
begin

text \<open>
  A shallow embedding of the hydrostatic kernel of the Organic Buoyancy Solver: the
  integration of a closed triangle mesh (\<open>calculateMeshProperties\<close>), the clipping of a
  mesh against the water plane \<open>z = 0\<close> (\<open>calculateSubmergedProperties\<close>) and the frame
  callback of the \<open>Solver\<close> component, with the properties the specification states
  about them.
\<close>

section \<open>Numbers\<close>

text \<open>
  A JavaScript number is modelled as an exact real, extended by the three special values
  a division by zero produces: \<open>Infinity\<close>, \<open>-Infinity\<close> and \<open>NaN\<close>. The special values
  follow IEEE 754 (\<open>0/0 = NaN\<close>, \<open>a/0 = \<plusminus>Infinity\<close>, \<open>0 * Infinity = NaN\<close>,
  \<open>Infinity - Infinity = NaN\<close>, every comparison with \<open>NaN\<close> is false). Arithmetic on
  finite values is exact: rounding, overflow of finite operands and the sign of zero are
  outside the model. The value \<open>undefined\<close> that an out-of-range array read yields is
  \<open>NaN\<close> as soon as it enters arithmetic or a comparison, and is modelled as \<open>NaN\<close>.
\<close>

datatype jsnum = Fin real | PInf | NInf | NaN

instantiation jsnum :: "{plus, minus, uminus, times, inverse, abs, ord}"
begin

fun uminus_jsnum :: "jsnum \<Rightarrow> jsnum" where
  "- Fin a = Fin (- a)"
| "- PInf = NInf"
| "- NInf = PInf"
| "- NaN = NaN"

fun plus_jsnum :: "jsnum \<Rightarrow> jsnum \<Rightarrow> jsnum" where
  "Fin a + Fin b = Fin (a + b)"
| "NaN + _ = NaN"
| "_ + NaN = NaN"
| "PInf + NInf = NaN"
| "NInf + PInf = NaN"
| "PInf + _ = PInf"
| "_ + PInf = PInf"
| "NInf + _ = NInf"
| "_ + NInf = NInf"

definition minus_jsnum :: "jsnum \<Rightarrow> jsnum \<Rightarrow> jsnum" where
  "minus_jsnum a b = a + (- b)"

fun times_jsnum :: "jsnum \<Rightarrow> jsnum \<Rightarrow> jsnum" where
  "Fin a * Fin b = Fin (a * b)"
| "NaN * _ = NaN"
| "_ * NaN = NaN"
| "PInf * Fin b = (if b = 0 then NaN else if 0 < b then PInf else NInf)"
| "NInf * Fin b = (if b = 0 then NaN else if 0 < b then NInf else PInf)"
| "Fin a * PInf = (if a = 0 then NaN else if 0 < a then PInf else NInf)"
| "Fin a * NInf = (if a = 0 then NaN else if 0 < a then NInf else PInf)"
| "PInf * PInf = PInf"
| "PInf * NInf = NInf"
| "NInf * PInf = NInf"
| "NInf * NInf = PInf"

fun divide_jsnum :: "jsnum \<Rightarrow> jsnum \<Rightarrow> jsnum" where
  "Fin a div Fin b =
     (if b = 0 then (if a = 0 then NaN else if 0 < a then PInf else NInf)
      else Fin (a / b))"
| "NaN div _ = NaN"
| "_ div NaN = NaN"
| "Fin a div PInf = Fin 0"
| "Fin a div NInf = Fin 0"
| "PInf div Fin b = (if b < 0 then NInf else PInf)"
| "NInf div Fin b = (if b < 0 then PInf else NInf)"
| "PInf div PInf = NaN"
| "PInf div NInf = NaN"
| "NInf div PInf = NaN"
| "NInf div NInf = NaN"

definition inverse_jsnum :: "jsnum \<Rightarrow> jsnum" where
  "inverse_jsnum a = Fin 1 div a"

fun abs_jsnum :: "jsnum \<Rightarrow> jsnum" where
  "\<bar>Fin a\<bar> = Fin \<bar>a\<bar>"
| "\<bar>PInf\<bar> = PInf"
| "\<bar>NInf\<bar> = PInf"
| "\<bar>NaN\<bar> = NaN"

fun less_jsnum :: "jsnum \<Rightarrow> jsnum \<Rightarrow> bool" where
  "Fin a < Fin b \<longleftrightarrow> a < b"
| "NaN < _ \<longleftrightarrow> False"
| "_ < NaN \<longleftrightarrow> False"
| "PInf < _ \<longleftrightarrow> False"
| "_ < NInf \<longleftrightarrow> False"
| "NInf < _ \<longleftrightarrow> True"
| "Fin a < PInf \<longleftrightarrow> True"

definition less_eq_jsnum :: "jsnum \<Rightarrow> jsnum \<Rightarrow> bool" where
  "less_eq_jsnum a b \<longleftrightarrow> a < b \<or> (a = b \<and> a \<noteq> NaN)"

instance ..

end

text \<open>\<open>Math.min\<close> and \<open>Math.max\<close>: \<open>NaN\<close> if either argument is \<open>NaN\<close>.\<close>

definition Math_min :: "jsnum \<Rightarrow> jsnum \<Rightarrow> jsnum" where
  "Math_min a b = (if a = NaN \<or> b = NaN then NaN else if b < a then b else a)"

definition Math_max :: "jsnum \<Rightarrow> jsnum \<Rightarrow> jsnum" where
  "Math_max a b = (if a = NaN \<or> b = NaN then NaN else if a < b then b else a)"

text \<open>\<open>Math.sin\<close> and \<open>Math.cos\<close>: \<open>NaN\<close> outside the finite numbers.\<close>

fun Math_sin :: "jsnum \<Rightarrow> jsnum" where
  "Math_sin (Fin a) = Fin (sin a)"
| "Math_sin _ = NaN"

fun Math_cos :: "jsnum \<Rightarrow> jsnum" where
  "Math_cos (Fin a) = Fin (cos a)"
| "Math_cos _ = NaN"

fun is_finite :: "jsnum \<Rightarrow> bool" where
  "is_finite (Fin a) = True"
| "is_finite _ = False"

section \<open>The parts of three.js the program uses\<close>

datatype Vector3 = Vector3 (vx: jsnum) (vy: jsnum) (vz: jsnum)

text \<open>A \<open>Matrix4\<close> holds sixteen elements in column-major order.\<close>

datatype Matrix4 = Matrix4 (elements: "jsnum list")

definition dot :: "Vector3 \<Rightarrow> Vector3 \<Rightarrow> jsnum" where
  "dot a b = vx a * vx b + vy a * vy b + vz a * vz b"

definition cross :: "Vector3 \<Rightarrow> Vector3 \<Rightarrow> Vector3" where
  "cross a b = Vector3 (vy a * vz b - vz a * vy b)
                       (vz a * vx b - vx a * vz b)
                       (vx a * vy b - vy a * vx b)"

definition multiplyScalar :: "Vector3 \<Rightarrow> jsnum \<Rightarrow> Vector3" where
  "multiplyScalar v s = Vector3 (vx v * s) (vy v * s) (vz v * s)"

definition divideScalar :: "Vector3 \<Rightarrow> jsnum \<Rightarrow> Vector3" where
  "divideScalar v s = multiplyScalar v (Fin 1 / s)"

definition add :: "Vector3 \<Rightarrow> Vector3 \<Rightarrow> Vector3" where
  "add a b = Vector3 (vx a + vx b) (vy a + vy b) (vz a + vz b)"

definition applyMatrix4 :: "Vector3 \<Rightarrow> Matrix4 \<Rightarrow> Vector3" where
  "applyMatrix4 v m =
     (let x = vx v; y = vy v; z = vz v; e = elements m;
          w = Fin 1 / (e ! 3 * x + e ! 7 * y + e ! 11 * z + e ! 15)
      in Vector3 ((e ! 0 * x + e ! 4 * y + e ! 8 * z + e ! 12) * w)
                 ((e ! 1 * x + e ! 5 * y + e ! 9 * z + e ! 13) * w)
                 ((e ! 2 * x + e ! 6 * y + e ! 10 * z + e ! 14) * w))"

text \<open>
  A \<open>BufferGeometry\<close>: the \<open>position\<close> attribute (one triple of finite coordinates per
  vertex) and the optional index.
\<close>

record BufferGeometry =
  uuid :: string
  attr_position :: "(real \<times> real \<times> real) list"
  attr_index :: "nat list option"

text \<open>\<open>index.getX(i)\<close>: \<open>undefined\<close> (here \<open>None\<close>) when \<open>i\<close> is out of range.\<close>

definition getX :: "nat list \<Rightarrow> nat \<Rightarrow> nat option" where
  "getX idx i = (if i < length idx then Some (idx ! i) else None)"

text \<open>
  \<open>v.fromBufferAttribute(posAttr, i)\<close>: the coordinates of vertex \<open>i\<close>; reading past the
  array, or at an undefined index, yields undefined coordinates.
\<close>

definition fromBufferAttribute :: "(real \<times> real \<times> real) list \<Rightarrow> nat option \<Rightarrow> Vector3" where
  "fromBufferAttribute posAttr i =
     (case i of
        None \<Rightarrow> Vector3 NaN NaN NaN
      | Some k \<Rightarrow>
          if k < length posAttr
          then (case posAttr ! k of (a, b, c) \<Rightarrow> Vector3 (Fin a) (Fin b) (Fin c))
          else Vector3 NaN NaN NaN)"

section \<open>geometryUtils: volume and centroid of a mesh\<close>

definition EPSILON :: jsnum where
  "EPSILON = Fin (1 / 100000)"

record MeshProperties =
  volume :: jsnum
  cog :: Vector3

record MeshSums =
  sum_volume :: jsnum
  sum_cx :: jsnum
  sum_cy :: jsnum
  sum_cz :: jsnum

text \<open>
  The three vertices the loops read for the triangle whose first corner is at offset \<open>i\<close>
  of the index (or of the position attribute when there is no index).
\<close>

definition read_triangle :: "BufferGeometry \<Rightarrow> nat \<Rightarrow> Vector3 \<times> Vector3 \<times> Vector3" where
  "read_triangle geometry i =
     (let posAttr = attr_position geometry in
      case attr_index geometry of
        Some idx \<Rightarrow>
          (fromBufferAttribute posAttr (getX idx i),
           fromBufferAttribute posAttr (getX idx (i + 1)),
           fromBufferAttribute posAttr (getX idx (i + 2)))
      | None \<Rightarrow>
          (fromBufferAttribute posAttr (Some i),
           fromBufferAttribute posAttr (Some (i + 1)),
           fromBufferAttribute posAttr (Some (i + 2))))"

definition vertex_count :: "BufferGeometry \<Rightarrow> nat" where
  "vertex_count geometry =
     (case attr_index geometry of Some idx \<Rightarrow> length idx | None \<Rightarrow> length (attr_position geometry))"

text \<open>
  The values of \<open>i\<close> the loop \<open>for (i = 0; i < faces; i++)\<close> visits, \<open>faces\<close> being
  \<open>n / 3\<close> for the number \<open>n\<close> of corners: those with \<open>3 * i < n\<close>, the division being a
  real one.
\<close>

definition face_numbers :: "nat \<Rightarrow> nat list" where
  "face_numbers n = [0 ..< (n + 2) div 3]"

text \<open>The values of \<open>i\<close> the loop \<open>for (i = 0; i < n; i += 3)\<close> visits.\<close>

definition face_offsets :: "nat \<Rightarrow> nat list" where
  "face_offsets n = map (\<lambda>k. 3 * k) [0 ..< (n + 2) div 3]"

definition signed_term :: "Vector3 \<Rightarrow> Vector3 \<Rightarrow> Vector3 \<Rightarrow> jsnum" where
  "signed_term p1 p2 p3 =
     (let v321 = vx p3 * vy p2 * vz p1;
          v231 = vx p2 * vy p3 * vz p1;
          v312 = vx p3 * vy p1 * vz p2;
          v132 = vx p1 * vy p3 * vz p2;
          v213 = vx p2 * vy p1 * vz p3;
          v123 = vx p1 * vy p2 * vz p3
      in (Fin 1 / Fin 6) * (- v321 + v231 + v312 - v132 - v213 + v123))"

definition mesh_step :: "BufferGeometry \<Rightarrow> MeshSums \<Rightarrow> nat \<Rightarrow> MeshSums" where
  "mesh_step geometry s i =
     (case read_triangle geometry (i * 3) of (p1, p2, p3) \<Rightarrow>
        let term = signed_term p1 p2 p3 in
        \<lparr> sum_volume = sum_volume s + term,
          sum_cx = sum_cx s + term * (vx p1 + vx p2 + vx p3) / Fin 4,
          sum_cy = sum_cy s + term * (vy p1 + vy p2 + vy p3) / Fin 4,
          sum_cz = sum_cz s + term * (vz p1 + vz p2 + vz p3) / Fin 4 \<rparr>)"

definition mesh_sums :: "BufferGeometry \<Rightarrow> MeshSums" where
  "mesh_sums geometry =
     foldl (mesh_step geometry)
       \<lparr> sum_volume = Fin 0, sum_cx = Fin 0, sum_cy = Fin 0, sum_cz = Fin 0 \<rparr>
       (face_numbers (vertex_count geometry))"

definition calculateMeshProperties :: "BufferGeometry \<Rightarrow> MeshProperties" where
  "calculateMeshProperties geometry =
     (let s = mesh_sums geometry in
      \<lparr> volume = \<bar>sum_volume s\<bar>,
        cog = Vector3 (sum_cx s / sum_volume s) (sum_cy s / sum_volume s)
                      (sum_cz s / sum_volume s) \<rparr>)"

section \<open>geometryUtils: the submerged part of a mesh\<close>

record SubmergedProperties =
  sub_volume :: jsnum
  center :: Vector3

record Moments =
  totalVolume :: jsnum
  momentX :: jsnum
  momentY :: jsnum
  momentZ :: jsnum

definition addTriangleContribution :: "Moments \<Rightarrow> Vector3 \<Rightarrow> Vector3 \<Rightarrow> Vector3 \<Rightarrow> Moments" where
  "addTriangleContribution s p1 p2 p3 =
     (let vol = dot p1 (cross p2 p3) / Fin 6 in
      \<lparr> totalVolume = totalVolume s + vol,
        momentX = momentX s + vol * (vx p1 + vx p2 + vx p3) / Fin 4,
        momentY = momentY s + vol * (vy p1 + vy p2 + vy p3) / Fin 4,
        momentZ = momentZ s + vol * (vz p1 + vz p2 + vz p3) / Fin 4 \<rparr>)"

definition intersectPlane :: "Vector3 \<Rightarrow> Vector3 \<Rightarrow> Vector3" where
  "intersectPlane p1 p2 =
     (let t = - vz p1 / (vz p2 - vz p1) in
      Vector3 (vx p1 + t * (vx p2 - vx p1)) (vy p1 + t * (vy p2 - vy p1)) (Fin 0))"

definition countUnder :: "bool \<Rightarrow> bool \<Rightarrow> bool \<Rightarrow> nat" where
  "countUnder aUnder bUnder cUnder =
     (if aUnder then 1 else 0) + (if bUnder then 1 else 0) + (if cUnder then 1 else 0)"

text \<open>The body of the loop, from the classification of the three world-space vertices on.\<close>

definition clip_triangle :: "Moments \<Rightarrow> Vector3 \<Rightarrow> Vector3 \<Rightarrow> Vector3 \<Rightarrow> Moments" where
  "clip_triangle s vA vB vC =
     (let aUnder = vz vA < Fin 0; bUnder = vz vB < Fin 0; cUnder = vz vC < Fin 0;
          n = countUnder aUnder bUnder cUnder
      in
      if n = 0 then s
      else if n = 3 then addTriangleContribution s vA vB vC
      else if n = 1 then
        (let (pUnder, pOver1, pOver2) =
               (if aUnder then (vA, vB, vC) else if bUnder then (vB, vC, vA) else (vC, vA, vB));
             i1 = intersectPlane pUnder pOver1;
             i2 = intersectPlane pUnder pOver2
         in
         if aUnder then addTriangleContribution s pUnder i1 i2
         else if bUnder then addTriangleContribution s i2 pUnder i1
         else addTriangleContribution s i1 i2 pUnder)
      else if n = 2 then
        (let (pOver, pUnder1, pUnder2) =
               (if \<not> aUnder then (vA, vB, vC) else if \<not> bUnder then (vB, vC, vA) else (vC, vA, vB));
             i1 = intersectPlane pOver pUnder1;
             i2 = intersectPlane pOver pUnder2
         in
         if \<not> aUnder then
           addTriangleContribution (addTriangleContribution s i1 pUnder1 pUnder2) i1 pUnder2 i2
         else if \<not> bUnder then
           addTriangleContribution (addTriangleContribution s pUnder2 i2 i1) pUnder2 i1 pUnder1
         else
           addTriangleContribution (addTriangleContribution s pUnder1 pUnder2 i2) pUnder1 i2 i1)
      else s)"

definition submerged_step :: "BufferGeometry \<Rightarrow> Matrix4 \<Rightarrow> Moments \<Rightarrow> nat \<Rightarrow> Moments" where
  "submerged_step geometry matrixWorld s i =
     (case read_triangle geometry i of (vA, vB, vC) \<Rightarrow>
        clip_triangle s (applyMatrix4 vA matrixWorld) (applyMatrix4 vB matrixWorld)
          (applyMatrix4 vC matrixWorld))"

definition submerged_moments :: "BufferGeometry \<Rightarrow> Matrix4 \<Rightarrow> Moments" where
  "submerged_moments geometry matrixWorld =
     foldl (submerged_step geometry matrixWorld)
       \<lparr> totalVolume = Fin 0, momentX = Fin 0, momentY = Fin 0, momentZ = Fin 0 \<rparr>
       (face_offsets (vertex_count geometry))"

definition submerged_result :: "Moments \<Rightarrow> SubmergedProperties" where
  "submerged_result s =
     (if \<bar>totalVolume s\<bar> < EPSILON
      then \<lparr> sub_volume = Fin 0, center = Vector3 (Fin 0) (Fin 0) (Fin 0) \<rparr>
      else \<lparr> sub_volume = \<bar>totalVolume s\<bar>,
             center = Vector3 (momentX s / totalVolume s) (momentY s / totalVolume s)
                              (momentZ s / totalVolume s) \<rparr>)"

definition calculateSubmergedProperties :: "BufferGeometry \<Rightarrow> Matrix4 \<Rightarrow> SubmergedProperties" where
  "calculateSubmergedProperties geometry matrixWorld =
     submerged_result (submerged_moments geometry matrixWorld)"

section \<open>The world matrix of the floating group\<close>

text \<open>
  The solver writes \<open>position.z\<close>, \<open>rotation.x\<close> and \<open>rotation.y\<close> of the target group and
  calls \<open>updateMatrixWorld\<close>. The group is created by the scene with no other transform
  (\<open>position.x = position.y = 0\<close>, \<open>rotation.z = 0\<close>, scale one, Euler order XYZ) below
  the scene root, whose world matrix is the identity. \<open>updateMatrixWorld\<close> composes the local
  matrix from this position, the quaternion of the Euler angles and the scale, and
  multiplies the world matrix of the parent by it.
\<close>

datatype Quaternion = Quaternion (qx: jsnum) (qy: jsnum) (qz: jsnum) (qw: jsnum)

definition setFromEuler :: "jsnum \<Rightarrow> jsnum \<Rightarrow> jsnum \<Rightarrow> Quaternion" where
  "setFromEuler x y z =
     (let c1 = Math_cos (x / Fin 2); c2 = Math_cos (y / Fin 2); c3 = Math_cos (z / Fin 2);
          s1 = Math_sin (x / Fin 2); s2 = Math_sin (y / Fin 2); s3 = Math_sin (z / Fin 2)
      in Quaternion (s1 * c2 * c3 + c1 * s2 * s3) (c1 * s2 * c3 - s1 * c2 * s3)
                    (c1 * c2 * s3 + s1 * s2 * c3) (c1 * c2 * c3 - s1 * s2 * s3))"

definition compose :: "Vector3 \<Rightarrow> Quaternion \<Rightarrow> Vector3 \<Rightarrow> Matrix4" where
  "compose position quaternion scale =
     (let x = qx quaternion; y = qy quaternion; z = qz quaternion; w = qw quaternion;
          x2 = x + x; y2 = y + y; z2 = z + z;
          xx = x * x2; xy = x * y2; xz = x * z2;
          yy = y * y2; yz = y * z2; zz = z * z2;
          wx = w * x2; wy = w * y2; wz = w * z2;
          sx = vx scale; sy = vy scale; sz = vz scale
      in Matrix4
           [(Fin 1 - (yy + zz)) * sx, (xy + wz) * sx, (xz - wy) * sx, Fin 0,
            (xy - wz) * sy, (Fin 1 - (xx + zz)) * sy, (yz + wx) * sy, Fin 0,
            (xz + wy) * sz, (yz - wx) * sz, (Fin 1 - (xx + yy)) * sz, Fin 0,
            vx position, vy position, vz position, Fin 1])"

definition multiplyMatrices :: "Matrix4 \<Rightarrow> Matrix4 \<Rightarrow> Matrix4" where
  "multiplyMatrices a b =
     (let ae = elements a; be = elements b;
          a11 = ae ! 0; a12 = ae ! 4; a13 = ae ! 8; a14 = ae ! 12;
          a21 = ae ! 1; a22 = ae ! 5; a23 = ae ! 9; a24 = ae ! 13;
          a31 = ae ! 2; a32 = ae ! 6; a33 = ae ! 10; a34 = ae ! 14;
          a41 = ae ! 3; a42 = ae ! 7; a43 = ae ! 11; a44 = ae ! 15;
          b11 = be ! 0; b12 = be ! 4; b13 = be ! 8; b14 = be ! 12;
          b21 = be ! 1; b22 = be ! 5; b23 = be ! 9; b24 = be ! 13;
          b31 = be ! 2; b32 = be ! 6; b33 = be ! 10; b34 = be ! 14;
          b41 = be ! 3; b42 = be ! 7; b43 = be ! 11; b44 = be ! 15
      in Matrix4
           [a11 * b11 + a12 * b21 + a13 * b31 + a14 * b41,
            a21 * b11 + a22 * b21 + a23 * b31 + a24 * b41,
            a31 * b11 + a32 * b21 + a33 * b31 + a34 * b41,
            a41 * b11 + a42 * b21 + a43 * b31 + a44 * b41,
            a11 * b12 + a12 * b22 + a13 * b32 + a14 * b42,
            a21 * b12 + a22 * b22 + a23 * b32 + a24 * b42,
            a31 * b12 + a32 * b22 + a33 * b32 + a34 * b42,
            a41 * b12 + a42 * b22 + a43 * b32 + a44 * b42,
            a11 * b13 + a12 * b23 + a13 * b33 + a14 * b43,
            a21 * b13 + a22 * b23 + a23 * b33 + a24 * b43,
            a31 * b13 + a32 * b23 + a33 * b33 + a34 * b43,
            a41 * b13 + a42 * b23 + a43 * b33 + a44 * b43,
            a11 * b14 + a12 * b24 + a13 * b34 + a14 * b44,
            a21 * b14 + a22 * b24 + a23 * b34 + a24 * b44,
            a31 * b14 + a32 * b24 + a33 * b34 + a34 * b44,
            a41 * b14 + a42 * b24 + a43 * b34 + a44 * b44])"

text \<open>The world matrix of the scene root, the parent of the group.\<close>

definition scene_matrixWorld :: Matrix4 where
  "scene_matrixWorld =
     Matrix4 [Fin 1, Fin 0, Fin 0, Fin 0, Fin 0, Fin 1, Fin 0, Fin 0,
              Fin 0, Fin 0, Fin 1, Fin 0, Fin 0, Fin 0, Fin 0, Fin 1]"

section \<open>Solver\<close>

record PhysicalProperties =
  mass :: jsnum
  density :: jsnum
  base_volume :: jsnum
  base_cog :: Vector3

text \<open>Of an \<open>ExternalWeight\<close> the solver reads the mass and the position only.\<close>

record ExternalWeight =
  weight_mass :: jsnum
  weight_position :: Vector3

record SolverResult =
  displacement :: jsnum
  result_rotationX :: jsnum
  result_rotationY :: jsnum
  submergedVolume :: jsnum
  cob :: Vector3
  totalMass :: jsnum
  combinedCOG :: Vector3

text \<open>
  The props of the component. \<open>targetRef\<close> tells whether \<open>targetRef.current\<close> is set (the
  group is mounted).
\<close>

record SolverProps =
  meshGeometry :: "BufferGeometry option"
  baseProperties :: PhysicalProperties
  weights :: "ExternalWeight list"
  waterDensity :: jsnum
  targetRef :: bool

text \<open>The three refs of the component.\<close>

record SolverState =
  positionZ :: jsnum
  rotationX :: jsnum
  rotationY :: jsnum

definition DAMPING_TRANSLATION :: jsnum where
  "DAMPING_TRANSLATION = Fin (1 / 10)"

definition DAMPING_ROTATION :: jsnum where
  "DAMPING_ROTATION = Fin (5 / 100)"

definition MAX_ITERATIONS :: nat where
  "MAX_ITERATIONS = 5"

definition GRAVITY :: jsnum where
  "GRAVITY = Fin (981 / 100)"

definition matrixWorld :: "SolverState \<Rightarrow> Matrix4" where
  "matrixWorld st =
     multiplyMatrices scene_matrixWorld
       (compose (Vector3 (Fin 0) (Fin 0) (positionZ st))
          (setFromEuler (rotationX st) (rotationY st) (Fin 0))
          (Vector3 (Fin 1) (Fin 1) (Fin 1)))"

text \<open>Step 1 of the frame callback: total mass and the moment sum over the weights.\<close>

definition add_weight :: "jsnum \<times> Vector3 \<Rightarrow> ExternalWeight \<Rightarrow> jsnum \<times> Vector3" where
  "add_weight acc w =
     (case acc of (tmass, momentSum) \<Rightarrow>
        (tmass + weight_mass w,
         add momentSum (multiplyScalar (weight_position w) (weight_mass w))))"

definition mass_and_moment :: "PhysicalProperties \<Rightarrow> ExternalWeight list \<Rightarrow> jsnum \<times> Vector3" where
  "mass_and_moment bp ws =
     foldl add_weight (mass bp, multiplyScalar (base_cog bp) (mass bp)) ws"

definition combinedCOG_Local :: "PhysicalProperties \<Rightarrow> ExternalWeight list \<Rightarrow> Vector3" where
  "combinedCOG_Local bp ws =
     (case mass_and_moment bp ws of (tmass, momentSum) \<Rightarrow> divideScalar momentSum tmass)"

text \<open>The quantities one pass of the inner loop computes before it moves the pose.\<close>

definition netForceZ :: "jsnum \<Rightarrow> jsnum \<Rightarrow> jsnum \<Rightarrow> jsnum" where
  "netForceZ submergedVol water tmass =
     (let buoyancyForce = submergedVol * water * GRAVITY;
          weightForce = tmass * GRAVITY
      in buoyancyForce - weightForce)"

definition heaveStep :: "jsnum \<Rightarrow> jsnum" where
  "heaveStep force = Math_max (Fin (- (5 / 10))) (Math_min (Fin (5 / 10)) (force * Fin (5 / 100000)))"

definition rotationStep :: "jsnum \<Rightarrow> jsnum" where
  "rotationStep d = Math_max (Fin (- (5 / 100))) (Math_min (Fin (5 / 100)) (d * Fin (2 / 100)))"

definition solver_iteration ::
  "BufferGeometry \<Rightarrow> jsnum \<Rightarrow> jsnum \<Rightarrow> Vector3 \<Rightarrow> SolverState \<Rightarrow> SolverState \<times> SolverResult" where
  "solver_iteration geometry water tmass cogLocal st =
     (let m = matrixWorld st;
          sub = calculateSubmergedProperties geometry m;
          submergedVol = sub_volume sub;
          cobWorld = center sub;
          z' = positionZ st + heaveStep (netForceZ submergedVol water tmass) * DAMPING_TRANSLATION;
          cogWorld = applyMatrix4 cogLocal m;
          dx = vx cogWorld - vx cobWorld;
          dy = vy cogWorld - vy cobWorld;
          pitchStep = rotationStep dy;
          rollStep = rotationStep dx;
          rx' = rotationX st - pitchStep * DAMPING_ROTATION;
          ry' = rotationY st + rollStep * DAMPING_ROTATION
      in (\<lparr> positionZ = z', rotationX = rx', rotationY = ry' \<rparr>,
          \<lparr> displacement = z', result_rotationX = rx', result_rotationY = ry',
            submergedVolume = submergedVol, cob = cobWorld, totalMass = tmass,
            combinedCOG = cogWorld \<rparr>))"

text \<open>
  The inner loop: \<open>MAX_ITERATIONS\<close> passes; the pass with \<open>i = MAX_ITERATIONS - 1\<close> calls
  \<open>onUpdate\<close> with its result, kept here as the second component.
\<close>

definition solver_pass ::
  "BufferGeometry \<Rightarrow> jsnum \<Rightarrow> jsnum \<Rightarrow> Vector3 \<Rightarrow> SolverState \<times> SolverResult option \<Rightarrow> nat
   \<Rightarrow> SolverState \<times> SolverResult option" where
  "solver_pass geometry water tmass cogLocal acc i =
     (case acc of (st, emitted) \<Rightarrow>
        case solver_iteration geometry water tmass cogLocal st of (st', r) \<Rightarrow>
          (st', if i = MAX_ITERATIONS - 1 then Some r else emitted))"

text \<open>
  The callback given to \<open>useFrame\<close>: the new values of the refs and the result passed to
  \<open>onUpdate\<close>, if any.
\<close>

definition useFrame :: "SolverProps \<Rightarrow> SolverState \<Rightarrow> SolverState \<times> SolverResult option" where
  "useFrame props st =
     (case meshGeometry props of
        None \<Rightarrow> (st, None)
      | Some geometry \<Rightarrow>
          if \<not> targetRef props then (st, None)
          else
            (let tmass = fst (mass_and_moment (baseProperties props) (weights props));
                 cogLocal = combinedCOG_Local (baseProperties props) (weights props)
             in foldl (solver_pass geometry (waterDensity props) tmass cogLocal) (st, None)
                  [0 ..< MAX_ITERATIONS]))"

section \<open>The scene: properties of the base mesh and the keyed solver\<close>

text \<open>The effect of \<open>SceneContent\<close> that derives the base properties of a loaded mesh.\<close>

definition derive_baseProps :: "BufferGeometry \<Rightarrow> jsnum \<Rightarrow> PhysicalProperties" where
  "derive_baseProps geometry baseDensity =
     (let mp = calculateMeshProperties geometry in
      \<lparr> mass = volume mp * baseDensity, density = baseDensity, base_volume = volume mp,
        base_cog = cog mp \<rparr>)"

text \<open>
  \<open>SceneContent\<close> renders the solver with \<open>key = geometry?.uuid || 'no-geo'\<close>. React keeps
  a component instance, and with it the refs, as long as the key is the same, and
  replaces it by a new instance, whose refs start at \<open>useRef(0)\<close>, when the key changes.
\<close>

record SolverInstance =
  instance_key :: string
  refs :: SolverState

definition solver_key :: "BufferGeometry option \<Rightarrow> string" where
  "solver_key geometry =
     (case geometry of
        None \<Rightarrow> ''no-geo''
      | Some g \<Rightarrow> if uuid g = [] then ''no-geo'' else uuid g)"

definition initial_refs :: SolverState where
  "initial_refs = \<lparr> positionZ = Fin 0, rotationX = Fin 0, rotationY = Fin 0 \<rparr>"

definition render_Solver :: "BufferGeometry option \<Rightarrow> SolverInstance \<Rightarrow> SolverInstance" where
  "render_Solver geometry inst =
     (if instance_key inst = solver_key geometry then inst
      else \<lparr> instance_key = solver_key geometry, refs = initial_refs \<rparr>)"

text \<open>One rendered frame: the scene renders the solver, then the frame callback runs.\<close>

definition scene_frame ::
  "SolverProps \<Rightarrow> SolverInstance \<Rightarrow> SolverInstance \<times> SolverResult option" where
  "scene_frame props inst =
     (let inst' = render_Solver (meshGeometry props) inst in
      case useFrame props (refs inst') of (st, emitted) \<Rightarrow> (inst'\<lparr> refs := st \<rparr>, emitted))"

section \<open>Meshes, transforms and reference definitions of the specification\<close>

type_synonym vec = "real \<times> real \<times> real"

fun vec3 :: "vec \<Rightarrow> Vector3" where
  "vec3 (a, b, c) = Vector3 (Fin a) (Fin b) (Fin c)"

text \<open>
  The invariant of the data model: index values are valid offsets into the vertex
  sequence, and the triangle corners come in triples.
\<close>

definition valid_mesh :: "BufferGeometry \<Rightarrow> bool" where
  "valid_mesh g =
     (case attr_index g of
        Some idx \<Rightarrow> length idx mod 3 = 0 \<and> list_all (\<lambda>i. i < length (attr_position g)) idx
      | None \<Rightarrow> length (attr_position g) mod 3 = 0)"

definition corner :: "BufferGeometry \<Rightarrow> nat \<Rightarrow> vec" where
  "corner g i =
     (case attr_index g of
        Some idx \<Rightarrow> attr_position g ! (idx ! i)
      | None \<Rightarrow> attr_position g ! i)"

text \<open>The ordered sequence of triangles of a mesh.\<close>

definition triangles :: "BufferGeometry \<Rightarrow> (vec \<times> vec \<times> vec) list" where
  "triangles g =
     map (\<lambda>k. (corner g (3 * k), corner g (3 * k + 1), corner g (3 * k + 2)))
       [0 ..< vertex_count g div 3]"

fun rdot :: "vec \<Rightarrow> vec \<Rightarrow> real" where
  "rdot (a1, a2, a3) (b1, b2, b3) = a1 * b1 + a2 * b2 + a3 * b3"

fun rcross :: "vec \<Rightarrow> vec \<Rightarrow> vec" where
  "rcross (a1, a2, a3) (b1, b2, b3) = (a2 * b3 - a3 * b2, a3 * b1 - a1 * b3, a1 * b2 - a2 * b1)"

text \<open>The signed volume of the tetrahedron spanned by the origin and a triangle.\<close>

fun tetra_term :: "vec \<times> vec \<times> vec \<Rightarrow> real" where
  "tetra_term (p1, p2, p3) = rdot p1 (rcross p2 p3) / 6"

text \<open>The centroid of that tetrahedron, \<open>(p1 + p2 + p3) / 4\<close>, by coordinate.\<close>

fun tetra_cx :: "vec \<times> vec \<times> vec \<Rightarrow> real" where
  "tetra_cx ((x1, y1, z1), (x2, y2, z2), (x3, y3, z3)) = (x1 + x2 + x3) / 4"

fun tetra_cy :: "vec \<times> vec \<times> vec \<Rightarrow> real" where
  "tetra_cy ((x1, y1, z1), (x2, y2, z2), (x3, y3, z3)) = (y1 + y2 + y3) / 4"

fun tetra_cz :: "vec \<times> vec \<times> vec \<Rightarrow> real" where
  "tetra_cz ((x1, y1, z1), (x2, y2, z2), (x3, y3, z3)) = (z1 + z2 + z3) / 4"

definition signed_volume :: "(vec \<times> vec \<times> vec) list \<Rightarrow> real" where
  "signed_volume ts = (\<Sum>t\<leftarrow>ts. tetra_term t)"

definition moment_x :: "(vec \<times> vec \<times> vec) list \<Rightarrow> real" where
  "moment_x ts = (\<Sum>t\<leftarrow>ts. tetra_term t * tetra_cx t)"

definition moment_y :: "(vec \<times> vec \<times> vec) list \<Rightarrow> real" where
  "moment_y ts = (\<Sum>t\<leftarrow>ts. tetra_term t * tetra_cy t)"

definition moment_z :: "(vec \<times> vec \<times> vec) list \<Rightarrow> real" where
  "moment_z ts = (\<Sum>t\<leftarrow>ts. tetra_term t * tetra_cz t)"

text \<open>
  The reference definition of the mesh integrator, in the words of the specification:
  the volume is the absolute value of the sum of the signed terms, the centroid the sum of
  the weighted tetrahedron centroids divided by the signed sum.
\<close>

definition integrateMesh :: "BufferGeometry \<Rightarrow> MeshProperties" where
  "integrateMesh g =
     (let ts = triangles g in
      \<lparr> volume = Fin \<bar>signed_volume ts\<bar>,
        cog = Vector3 (Fin (moment_x ts) / Fin (signed_volume ts))
                      (Fin (moment_y ts) / Fin (signed_volume ts))
                      (Fin (moment_z ts) / Fin (signed_volume ts)) \<rparr>)"

text \<open>The clamp of the specification.\<close>

definition clamp :: "jsnum \<Rightarrow> jsnum \<Rightarrow> jsnum \<Rightarrow> jsnum" where
  "clamp x lo hi = (if x < lo then lo else if hi < x then hi else x)"




text \<open>
  An affine world transform, given by the images \<open>c1\<close>, \<open>c2\<close>, \<open>c3\<close> of the three axes and
  the translation \<open>t\<close>, as a \<open>Matrix4\<close> and as a map on points. It is rigid when the three
  columns form a rotation.
\<close>

fun affine :: "vec \<Rightarrow> vec \<Rightarrow> vec \<Rightarrow> vec \<Rightarrow> Matrix4" where
  "affine (a0, a1, a2) (a4, a5, a6) (a8, a9, a10) (a12, a13, a14) =
     Matrix4 [Fin a0, Fin a1, Fin a2, Fin 0, Fin a4, Fin a5, Fin a6, Fin 0,
              Fin a8, Fin a9, Fin a10, Fin 0, Fin a12, Fin a13, Fin a14, Fin 1]"

fun transform :: "vec \<Rightarrow> vec \<Rightarrow> vec \<Rightarrow> vec \<Rightarrow> vec \<Rightarrow> vec" where
  "transform (a0, a1, a2) (a4, a5, a6) (a8, a9, a10) (a12, a13, a14) (x, y, z) =
     (a0 * x + a4 * y + a8 * z + a12, a1 * x + a5 * y + a9 * z + a13,
      a2 * x + a6 * y + a10 * z + a14)"



definition above_water :: "BufferGeometry \<Rightarrow> Matrix4 \<Rightarrow> bool" where
  "above_water g m \<longleftrightarrow> list_all (\<lambda>p. Fin 0 \<le> vz (applyMatrix4 (vec3 p) m)) (attr_position g)"







section \<open>Example meshes\<close>

text \<open>The cube of side 2 about the origin, as \<open>new THREE.BoxGeometry(2, 2, 2)\<close> lays it out.\<close>

definition cube :: BufferGeometry where
  "cube =
     \<lparr> uuid = ''cube'',
       attr_position =
         [(1, 1, 1), (1, 1, -1), (1, -1, 1), (1, -1, -1),
          (-1, 1, -1), (-1, 1, 1), (-1, -1, -1), (-1, -1, 1),
          (-1, 1, -1), (1, 1, -1), (-1, 1, 1), (1, 1, 1),
          (-1, -1, 1), (1, -1, 1), (-1, -1, -1), (1, -1, -1),
          (-1, 1, 1), (1, 1, 1), (-1, -1, 1), (1, -1, 1),
          (1, 1, -1), (-1, 1, -1), (1, -1, -1), (-1, -1, -1)],
       attr_index =
         Some [0, 2, 1, 2, 3, 1, 4, 6, 5, 6, 7, 5, 8, 10, 9, 10, 11, 9,
               12, 14, 13, 14, 15, 13, 16, 18, 17, 18, 19, 17, 20, 22, 21, 22, 23, 21] \<rparr>"

text \<open>A single triangle in the plane \<open>z = 0\<close>: a mesh of volume zero, without index.\<close>

definition flat_triangle :: BufferGeometry where
  "flat_triangle =
     \<lparr> uuid = ''flat'',
       attr_position = [(- (1 / 2), - (1 / 2), 0), (1 / 2, - (1 / 2), 0), (- (1 / 2), 1 / 2, 0)],
       attr_index = None \<rparr>"


definition identity :: Matrix4 where
  "identity = affine (1, 0, 0) (0, 1, 0) (0, 0, 1) (0, 0, 0)"

definition finite_vec :: "Vector3 \<Rightarrow> bool" where
  "finite_vec v \<longleftrightarrow> is_finite (vx v) \<and> is_finite (vy v) \<and> is_finite (vz v)"

definition finite_moments :: "Moments \<Rightarrow> bool" where
  "finite_moments s \<longleftrightarrow>
     is_finite (totalVolume s) \<and> is_finite (momentX s) \<and> is_finite (momentY s) \<and>
     is_finite (momentZ s)"

section \<open>Frames of the solver\<close>




text \<open>The refs after the first \<open>k\<close> passes of the inner loop of one frame.\<close>

definition inner_state :: "SolverProps \<Rightarrow> SolverState \<Rightarrow> nat \<Rightarrow> SolverState" where
  "inner_state props st k =
     (case meshGeometry props of
        None \<Rightarrow> st
      | Some geometry \<Rightarrow>
          if \<not> targetRef props then st
          else
            (let tmass = fst (mass_and_moment (baseProperties props) (weights props));
                 cogLocal = combinedCOG_Local (baseProperties props) (weights props)
             in fst (foldl (solver_pass geometry (waterDensity props) tmass cogLocal) (st, None)
                  [0 ..< k])))"


text \<open>The scene after a mesh is loaded, with no external weights and seawater.\<close>

definition scene_props :: "BufferGeometry \<Rightarrow> jsnum \<Rightarrow> SolverProps" where
  "scene_props geometry baseDensity =
     \<lparr> meshGeometry = Some geometry, baseProperties = derive_baseProps geometry baseDensity,
       weights = [], waterDensity = Fin 1025, targetRef = True \<rparr>"







text \<open>The scene with the cube of material density 200 and one external weight.\<close>

definition weighted_props :: SolverProps where
  "weighted_props =
     (scene_props cube (Fin 200))
       \<lparr> weights := [\<lparr> weight_mass = Fin 1600,
                        weight_position = Vector3 (Fin 2) (Fin 4) (Fin 0) \<rparr>] \<rparr>"

section \<open>Facts about numbers\<close>

lemma Fin_minus [simp]: "Fin a - Fin b = Fin (a - b)"
  by (simp add: minus_jsnum_def)

lemma NaN_plus [simp]: "NaN + a = NaN" "a + NaN = NaN"
  by (cases a; simp)+

lemma NaN_times [simp]: "NaN * a = NaN" "a * NaN = NaN"
  by (cases a; simp)+

lemma NaN_minus [simp]: "NaN - a = NaN" "a - NaN = NaN"
  by (simp_all add: minus_jsnum_def)

lemma NaN_divide [simp]: "NaN / a = NaN" "a / NaN = NaN"
  by (cases a; simp)+

lemma not_NaN_less [simp]: "\<not> NaN < a" "\<not> a < NaN"
  by (cases a; simp)+

lemma Fin_le [simp]: "Fin a \<le> Fin b \<longleftrightarrow> a \<le> b"
  by (auto simp: less_eq_jsnum_def)

lemma le_not_less: "(a::jsnum) \<le> b \<Longrightarrow> \<not> b < a"
  by (cases a; cases b; auto simp: less_eq_jsnum_def)

section \<open>Facts about the loops and the vertex reads\<close>

lemma face_numbers_iff: "i \<in> set (face_numbers n) \<longleftrightarrow> 3 * i < n"
  by (auto simp: face_numbers_def)

lemma face_offsets_iff: "i \<in> set (face_offsets n) \<longleftrightarrow> i mod 3 = 0 \<and> i < n"
  by (auto simp: face_offsets_def image_iff)

lemma foldl_fixed: "(\<And>s i. f s i = s) \<Longrightarrow> foldl f s xs = s"
  by (induction xs) simp_all

lemma fromBufferAttribute_cases:
  "fromBufferAttribute ps i = Vector3 NaN NaN NaN \<or> (\<exists>p \<in> set ps. fromBufferAttribute ps i = vec3 p)"
proof (cases i)
  case None
  then show ?thesis by (simp add: fromBufferAttribute_def)
next
  case (Some k)
  show ?thesis
  proof (cases "k < length ps")
    case True
    then have "ps ! k \<in> set ps" by simp
    moreover have "fromBufferAttribute ps i = vec3 (ps ! k)"
      using Some True by (cases "ps ! k") (simp add: fromBufferAttribute_def)
    ultimately show ?thesis by blast
  next
    case False
    with Some show ?thesis by (simp add: fromBufferAttribute_def)
  qed
qed

lemma applyMatrix4_NaN: "vz (applyMatrix4 (Vector3 NaN NaN NaN) m) = NaN"
  by (simp add: applyMatrix4_def Let_def)

lemma vec3_sel [simp]:
  "vx (vec3 p) = Fin (fst p)" "vy (vec3 p) = Fin (fst (snd p))" "vz (vec3 p) = Fin (snd (snd p))"
  by (cases p; simp)+

lemma applyMatrix4_affine:
  "applyMatrix4 (vec3 p) (affine c1 c2 c3 t) = vec3 (transform c1 c2 c3 t p)"
  by (cases p; cases c1; cases c2; cases c3; cases t) (simp add: applyMatrix4_def)

lemma vz_applyMatrix4_affine:
  "vz (applyMatrix4 (vec3 p) (affine c1 c2 c3 t)) = Fin (snd (snd (transform c1 c2 c3 t p)))"
  by (cases p; cases c1; cases c2; cases c3; cases t) (simp add: applyMatrix4_def)

section \<open>The mesh integrator at volume zero\<close>

text \<open>
  Claim C1 asks that a mesh of volume zero gets the origin as its centroid, from the
  integrator as from the clipper. \<open>calculateSubmergedProperties\<close> has the guard;
  \<open>calculateMeshProperties\<close> divides by the volume without one: for the triangle in the
  plane \<open>z = 0\<close> the volume is 0 and every coordinate of the centroid is \<open>0 / 0 = NaN\<close>.
\<close>

theorem calculateMeshProperties_flat_triangle:
  "calculateMeshProperties flat_triangle = \<lparr> volume = Fin 0, cog = Vector3 NaN NaN NaN \<rparr>"
  by (simp add: calculateMeshProperties_def mesh_sums_def flat_triangle_def vertex_count_def
      face_numbers_def mesh_step_def Let_def read_triangle_def fromBufferAttribute_def
      signed_term_def)

section \<open>A mesh above the water\<close>

lemma clip_triangle_above:
  "\<not> vz a < Fin 0 \<Longrightarrow> \<not> vz b < Fin 0 \<Longrightarrow> \<not> vz c < Fin 0 \<Longrightarrow> clip_triangle s a b c = s"
  by (simp add: clip_triangle_def countUnder_def)

lemma read_above:
  assumes "above_water g m"
  shows "\<not> vz (applyMatrix4 (fromBufferAttribute (attr_position g) i) m) < Fin 0"
proof -
  from fromBufferAttribute_cases [of "attr_position g" i]
  show ?thesis
  proof
    assume "fromBufferAttribute (attr_position g) i = Vector3 NaN NaN NaN"
    then show ?thesis by (simp add: applyMatrix4_NaN)
  next
    assume "\<exists>p \<in> set (attr_position g). fromBufferAttribute (attr_position g) i = vec3 p"
    then obtain p where "p \<in> set (attr_position g)"
      and "fromBufferAttribute (attr_position g) i = vec3 p"
      by blast
    with assms show ?thesis
      by (auto simp: above_water_def list_all_iff dest: le_not_less)
  qed
qed

lemma submerged_step_above: "above_water g m \<Longrightarrow> submerged_step g m s i = s"
  by (auto simp: submerged_step_def read_triangle_def Let_def read_above clip_triangle_above
      split: option.splits)

text \<open>
  Claim C7: when every vertex of the mesh, moved by the world transform, has \<open>z \<ge> 0\<close>,
  every triangle counts no vertex under water and adds nothing, and
  \<open>calculateSubmergedProperties\<close> returns volume 0 and centroid \<open>(0,0,0)\<close>. This holds for
  every mesh, indexed or not, and every matrix.
\<close>

theorem calculateSubmergedProperties_above_water:
  "above_water g m \<Longrightarrow>
   calculateSubmergedProperties g m =
     \<lparr> sub_volume = Fin 0, center = Vector3 (Fin 0) (Fin 0) (Fin 0) \<rparr>"
  by (simp add: calculateSubmergedProperties_def submerged_moments_def submerged_step_above
      foldl_fixed submerged_result_def EPSILON_def)

theorem calculateSubmergedProperties_above_water_witness:
  "above_water cube (affine (1, 0, 0) (0, 1, 0) (0, 0, 1) (0, 0, 1)) \<and>
   calculateSubmergedProperties cube (affine (1, 0, 0) (0, 1, 0) (0, 0, 1) (0, 0, 1)) =
     \<lparr> sub_volume = Fin 0, center = Vector3 (Fin 0) (Fin 0) (Fin 0) \<rparr>"
proof -
  have h: "above_water cube (affine (1, 0, 0) (0, 1, 0) (0, 0, 1) (0, 0, 1))"
    by (simp add: above_water_def cube_def vz_applyMatrix4_affine del: vec3.simps affine.simps)
  show ?thesis
    using h calculateSubmergedProperties_above_water [OF h] by simp
qed

section \<open>Finite inputs give finite moments\<close>

lemma is_finite_iff: "is_finite a \<longleftrightarrow> (\<exists>r. a = Fin r)"
  by (cases a) simp_all

lemma finite_vec_iff: "finite_vec v \<longleftrightarrow> (\<exists>p. v = vec3 p)"
proof
  assume "finite_vec v"
  then obtain a b c where "vx v = Fin a" "vy v = Fin b" "vz v = Fin c"
    by (auto simp: finite_vec_def is_finite_iff)
  then have "v = vec3 (a, b, c)" by (cases v) simp
  then show "\<exists>p. v = vec3 p" ..
next
  assume "\<exists>p. v = vec3 p"
  then obtain p where "v = vec3 p" ..
  then show "finite_vec v" by (cases p) (simp add: finite_vec_def)
qed

lemma finite_vec_vec3 [simp]: "finite_vec (vec3 p)"
  by (cases p) (simp add: finite_vec_def)

lemma finite_moments_iff:
  "finite_moments s \<longleftrightarrow>
     (\<exists>v a b c. s = \<lparr>totalVolume = Fin v, momentX = Fin a, momentY = Fin b, momentZ = Fin c\<rparr>)"
  by (cases s) (auto simp: finite_moments_def is_finite_iff)

lemma addTriangleContribution_finite:
  assumes "finite_moments s" "finite_vec p1" "finite_vec p2" "finite_vec p3"
  shows "finite_moments (addTriangleContribution s p1 p2 p3)"
proof -
  from assms obtain a b c where p: "p1 = vec3 a" "p2 = vec3 b" "p3 = vec3 c"
    by (auto simp: finite_vec_iff)
  from assms obtain v x y z
    where s: "s = \<lparr>totalVolume = Fin v, momentX = Fin x, momentY = Fin y, momentZ = Fin z\<rparr>"
    by (auto simp: finite_moments_iff)
  show ?thesis
    unfolding p s
    by (cases a; cases b; cases c)
      (simp add: addTriangleContribution_def dot_def cross_def Let_def finite_moments_def)
qed

text \<open>
  The division in \<open>intersectPlane\<close> is by the difference of two heights, one below zero and
  one not: it is never a division by zero.
\<close>

lemma intersectPlane_finite:
  assumes "finite_vec p" "finite_vec q" "vz p \<noteq> vz q"
  shows "finite_vec (intersectPlane p q)"
proof -
  from assms obtain a b where p: "p = vec3 a" "q = vec3 b"
    by (auto simp: finite_vec_iff)
  show ?thesis
    using assms(3) unfolding p
    by (cases a; cases b) (simp add: intersectPlane_def Let_def finite_vec_def)
qed

lemma under_over_differ: "a < Fin 0 \<Longrightarrow> \<not> b < Fin 0 \<Longrightarrow> a \<noteq> b \<and> b \<noteq> a"
  by auto

lemma clip_triangle_finite:
  assumes "finite_moments s" "finite_vec a" "finite_vec b" "finite_vec c"
  shows "finite_moments (clip_triangle s a b c)"
  using assms
  by (cases "vz a < Fin 0"; cases "vz b < Fin 0"; cases "vz c < Fin 0")
    (simp_all add: clip_triangle_def countUnder_def Let_def addTriangleContribution_finite
      intersectPlane_finite under_over_differ)

lemma valid_mesh_div: "valid_mesh g \<Longrightarrow> (vertex_count g + 2) div 3 = vertex_count g div 3"
  by (auto simp: valid_mesh_def vertex_count_def split: option.splits)

lemma valid_face_offsets:
  "valid_mesh g \<Longrightarrow> face_offsets (vertex_count g) = map (\<lambda>k. 3 * k) [0 ..< vertex_count g div 3]"
  unfolding face_offsets_def by (simp only: valid_mesh_div)

lemma valid_face_numbers:
  "valid_mesh g \<Longrightarrow> face_numbers (vertex_count g) = [0 ..< vertex_count g div 3]"
  unfolding face_numbers_def by (simp only: valid_mesh_div)

lemma valid_mesh_read:
  assumes "valid_mesh g" and "k < vertex_count g div 3"
  shows "read_triangle g (3 * k) =
           (vec3 (corner g (3 * k)), vec3 (corner g (3 * k + 1)), vec3 (corner g (3 * k + 2)))"
proof (cases "attr_index g")
  case None
  with assms have "3 * k + 2 < length (attr_position g)"
    by (auto simp: valid_mesh_def vertex_count_def)
  then have "fromBufferAttribute (attr_position g) (Some (3 * k + j)) =
      vec3 (attr_position g ! (3 * k + j))"
    if "j \<le> 2" for j
    using that by (cases "attr_position g ! (3 * k + j)") (simp add: fromBufferAttribute_def)
  from this [of 0] this [of 1] this [of 2] None show ?thesis
    by (simp add: read_triangle_def corner_def Let_def)
next
  case (Some idx)
  with assms have len: "3 * k + 2 < length idx"
    and ok: "\<And>i. i < length idx \<Longrightarrow> idx ! i < length (attr_position g)"
    by (auto simp: valid_mesh_def vertex_count_def list_all_length)
  have "fromBufferAttribute (attr_position g) (getX idx (3 * k + j)) =
      vec3 (attr_position g ! (idx ! (3 * k + j)))"
    if "j \<le> 2" for j
    using that len ok [of "3 * k + j"]
    by (cases "attr_position g ! (idx ! (3 * k + j))") (simp add: fromBufferAttribute_def getX_def)
  from this [of 0] this [of 1] this [of 2] Some show ?thesis
    by (simp add: read_triangle_def corner_def Let_def)
qed

lemma foldl_invariant:
  assumes "P s" and "\<And>s i. i \<in> set xs \<Longrightarrow> P s \<Longrightarrow> P (f s i)"
  shows "P (foldl f s xs)"
  using assms by (induction xs arbitrary: s) simp_all

lemma submerged_step_finite:
  assumes "valid_mesh g" and "k < vertex_count g div 3" and "finite_moments s"
  shows "finite_moments (submerged_step g (affine c1 c2 c3 t) s (3 * k))"
  using assms
  by (simp add: submerged_step_def valid_mesh_read applyMatrix4_affine clip_triangle_finite
      del: vec3.simps affine.simps)

lemma submerged_moments_finite:
  assumes "valid_mesh g"
  shows "finite_moments (submerged_moments g (affine c1 c2 c3 t))"
  unfolding submerged_moments_def
proof (rule foldl_invariant)
  show "finite_moments \<lparr>totalVolume = Fin 0, momentX = Fin 0, momentY = Fin 0, momentZ = Fin 0\<rparr>"
    by (simp add: finite_moments_def)
next
  fix s i
  assume "i \<in> set (face_offsets (vertex_count g))" and "finite_moments s"
  then show "finite_moments (submerged_step g (affine c1 c2 c3 t) s i)"
    using assms by (auto simp: valid_face_offsets submerged_step_finite)
qed

section \<open>The cube\<close>

lemma offsets36: "face_offsets 36 = [0, 3, 6, 9, 12, 15, 18, 21, 24, 27, 30, 33]"
  by code_simp

lemma numbers36: "face_numbers 36 = [0, 1, 2, 3, 4, 5, 6, 7, 8, 9, 10, 11]"
  by code_simp

lemma cube_count: "vertex_count cube = 36"
  by (simp add: vertex_count_def cube_def)

lemma valid_cube: "valid_mesh cube"
  by (simp add: valid_mesh_def cube_def)

lemma apply_identity: "applyMatrix4 (vec3 p) identity = vec3 p"
  by (cases p) (simp add: identity_def applyMatrix4_def)

lemma matrixWorld_initial: "matrixWorld initial_refs = identity"
  by (simp add: matrixWorld_def initial_refs_def identity_def compose_def setFromEuler_def
      multiplyMatrices_def scene_matrixWorld_def Let_def)

lemma cube_reads:
  "read_triangle cube 0 = (vec3 (1,1,1), vec3 (1,-1,1), vec3 (1,1,-1))"
  "read_triangle cube 3 = (vec3 (1,-1,1), vec3 (1,-1,-1), vec3 (1,1,-1))"
  "read_triangle cube 6 = (vec3 (-1,1,-1), vec3 (-1,-1,-1), vec3 (-1,1,1))"
  "read_triangle cube 9 = (vec3 (-1,-1,-1), vec3 (-1,-1,1), vec3 (-1,1,1))"
  "read_triangle cube 12 = (vec3 (-1,1,-1), vec3 (-1,1,1), vec3 (1,1,-1))"
  "read_triangle cube 15 = (vec3 (-1,1,1), vec3 (1,1,1), vec3 (1,1,-1))"
  "read_triangle cube 18 = (vec3 (-1,-1,1), vec3 (-1,-1,-1), vec3 (1,-1,1))"
  "read_triangle cube 21 = (vec3 (-1,-1,-1), vec3 (1,-1,-1), vec3 (1,-1,1))"
  "read_triangle cube 24 = (vec3 (-1,1,1), vec3 (-1,-1,1), vec3 (1,1,1))"
  "read_triangle cube 27 = (vec3 (-1,-1,1), vec3 (1,-1,1), vec3 (1,1,1))"
  "read_triangle cube 30 = (vec3 (1,1,-1), vec3 (1,-1,-1), vec3 (-1,1,-1))"
  "read_triangle cube 33 = (vec3 (1,-1,-1), vec3 (-1,-1,-1), vec3 (-1,1,-1))"
  by (simp_all add: read_triangle_def cube_def getX_def fromBufferAttribute_def)

lemma cube_sums:
  "mesh_sums cube = \<lparr> sum_volume = Fin 8, sum_cx = Fin 0, sum_cy = Fin 0, sum_cz = Fin 0 \<rparr>"
  by (simp add: mesh_sums_def cube_count numbers36 mesh_step_def cube_reads signed_term_def Let_def)

lemma cube_properties:
  "calculateMeshProperties cube = \<lparr> volume = Fin 8, cog = Vector3 (Fin 0) (Fin 0) (Fin 0) \<rparr>"
  by (simp add: calculateMeshProperties_def cube_sums)

lemma cube_moments:
  "submerged_moments cube identity =
     \<lparr> totalVolume = Fin 4, momentX = Fin 0, momentY = Fin 0, momentZ = Fin (- 2) \<rparr>"
  apply (simp add: submerged_moments_def cube_count offsets36 submerged_step_def cube_reads
      apply_identity del: vec3.simps)
  apply (simp add: clip_triangle_def countUnder_def Let_def addTriangleContribution_def
      intersectPlane_def dot_def cross_def)
  done

lemma cube_submerged:
  "calculateSubmergedProperties cube identity =
     \<lparr> sub_volume = Fin 4, center = Vector3 (Fin 0) (Fin 0) (Fin (- (1 / 2))) \<rparr>"
  by (simp add: calculateSubmergedProperties_def cube_moments submerged_result_def EPSILON_def)

text \<open>
  Claim C4: for the cube of side 2 about the origin (total volume 8) under the identity
  transform, the water plane cuts the cube in half. The four side faces are cut, each into
  one triangle with one and one triangle with two vertices under water;
  \<open>calculateSubmergedProperties\<close> returns the volume 4 and the centroid \<open>(0, 0, -1/2)\<close>,
  exactly so in exact arithmetic. The identity is the world matrix of the solver's initial
  pose.
\<close>

theorem calculateSubmergedProperties_half_cube:
  "calculateSubmergedProperties cube identity =
     \<lparr> sub_volume = Fin 4, center = Vector3 (Fin 0) (Fin 0) (Fin (- (1 / 2))) \<rparr> \<and>
   volume (calculateMeshProperties cube) = Fin 8 \<and>
   matrixWorld initial_refs = identity"
  by (simp add: cube_submerged cube_properties matrixWorld_initial)

section \<open>The result of the clipper\<close>

text \<open>
  Claim C8: \<open>calculateSubmergedProperties\<close> returns volume 0 and centroid \<open>(0,0,0)\<close> exactly
  when the absolute value of the accumulated signed volume is below \<open>1e-5\<close>; otherwise the
  volume is that absolute value and the centroid is the accumulated moment divided by the
  accumulated signed volume.
\<close>

theorem calculateSubmergedProperties_result:
  "(let s = submerged_moments g m; r = calculateSubmergedProperties g m in
    ((sub_volume r = Fin 0 \<and> center r = Vector3 (Fin 0) (Fin 0) (Fin 0)) \<longleftrightarrow>
       \<bar>totalVolume s\<bar> < Fin (1 / 100000)) \<and>
    (\<not> \<bar>totalVolume s\<bar> < Fin (1 / 100000) \<longrightarrow>
       sub_volume r = \<bar>totalVolume s\<bar> \<and>
       center r = Vector3 (momentX s / totalVolume s) (momentY s / totalVolume s)
                          (momentZ s / totalVolume s)))"
  by (cases "totalVolume (submerged_moments g m)")
    (auto simp: calculateSubmergedProperties_def submerged_result_def EPSILON_def Let_def)

theorem calculateSubmergedProperties_result_witness:
  "\<not> \<bar>totalVolume (submerged_moments cube identity)\<bar> < Fin (1 / 100000) \<and>
   sub_volume (calculateSubmergedProperties cube identity) = Fin 4 \<and>
   center (calculateSubmergedProperties cube identity) = Vector3 (Fin 0) (Fin 0) (Fin (- (1 / 2))) \<and>
   \<bar>totalVolume (submerged_moments flat_triangle identity)\<bar> < Fin (1 / 100000) \<and>
   sub_volume (calculateSubmergedProperties flat_triangle identity) = Fin 0 \<and>
   center (calculateSubmergedProperties flat_triangle identity) = Vector3 (Fin 0) (Fin 0) (Fin 0)"
proof -
  have "above_water flat_triangle identity"
    by (simp add: above_water_def flat_triangle_def apply_identity del: vec3.simps)
  then have flat: "submerged_moments flat_triangle identity =
      \<lparr> totalVolume = Fin 0, momentX = Fin 0, momentY = Fin 0, momentZ = Fin 0 \<rparr>"
    by (simp add: submerged_moments_def submerged_step_above foldl_fixed)
  show ?thesis
    using calculateSubmergedProperties_result [of cube identity]
      calculateSubmergedProperties_result [of flat_triangle identity]
    by (simp add: cube_moments flat Let_def)
qed

lemma abs_jsnum_not_negative: "\<not> \<bar>a::jsnum\<bar> < Fin 0"
  by (cases a) simp_all

text \<open>
  Claim C10: the volume \<open>calculateSubmergedProperties\<close> returns is never negative and never
  strictly between 0 and \<open>1e-5\<close>, for every mesh and matrix; and for a mesh that satisfies
  the invariant of the data model and a world transform with finite entries it is a finite
  number that is either 0 or at least \<open>1e-5\<close>.
\<close>

theorem calculateSubmergedProperties_volume_range:
  "\<not> sub_volume (calculateSubmergedProperties g m) < Fin 0 \<and>
   \<not> (Fin 0 < sub_volume (calculateSubmergedProperties g m) \<and>
      sub_volume (calculateSubmergedProperties g m) < Fin (1 / 100000)) \<and>
   (valid_mesh g \<longrightarrow>
      (\<exists>v. sub_volume (calculateSubmergedProperties g (affine c1 c2 c3 t)) = Fin v \<and>
           (v = 0 \<or> 1 / 100000 \<le> v)))"
proof -
  have "\<not> sub_volume (calculateSubmergedProperties g m) < Fin 0"
    by (simp add: calculateSubmergedProperties_def submerged_result_def abs_jsnum_not_negative)
  moreover have "\<not> (Fin 0 < sub_volume (calculateSubmergedProperties g m) \<and>
      sub_volume (calculateSubmergedProperties g m) < Fin (1 / 100000))"
    by (simp add: calculateSubmergedProperties_def submerged_result_def EPSILON_def)
  moreover have "\<exists>v. sub_volume (calculateSubmergedProperties g (affine c1 c2 c3 t)) = Fin v \<and>
           (v = 0 \<or> 1 / 100000 \<le> v)" if "valid_mesh g"
  proof -
    from submerged_moments_finite [OF that, of c1 c2 c3 t]
    obtain v where "totalVolume (submerged_moments g (affine c1 c2 c3 t)) = Fin v"
      by (auto simp: finite_moments_def is_finite_iff)
    then show ?thesis
      by (auto simp: calculateSubmergedProperties_def submerged_result_def EPSILON_def)
  qed
  ultimately show ?thesis by blast
qed

theorem calculateSubmergedProperties_volume_range_witness:
  "valid_mesh cube \<and>
   \<not> sub_volume (calculateSubmergedProperties cube identity) < Fin 0 \<and>
   (\<exists>v. sub_volume (calculateSubmergedProperties cube
             (affine (1, 0, 0) (0, 1, 0) (0, 0, 1) (0, 0, 0))) = Fin v \<and>
        (v = 0 \<or> 1 / 100000 \<le> v))"
  using calculateSubmergedProperties_volume_range
      [of cube identity "(1, 0, 0)" "(0, 1, 0)" "(0, 0, 1)" "(0, 0, 0)"] valid_cube
  by blast

section \<open>The mesh integrator against its reference definition\<close>

lemma signed_term_finite:
  "signed_term (vec3 p1) (vec3 p2) (vec3 p3) = Fin (tetra_term (p1, p2, p3))"
  by (cases p1; cases p2; cases p3) (simp add: signed_term_def Let_def algebra_simps)

lemma triangles_nth:
  "k < vertex_count g div 3 \<Longrightarrow>
   triangles g ! k = (corner g (3 * k), corner g (3 * k + 1), corner g (3 * k + 2))"
  by (simp add: triangles_def)

lemma length_triangles [simp]: "length (triangles g) = vertex_count g div 3"
  by (simp add: triangles_def)

lemma mesh_step_valid:
  assumes "valid_mesh g" and "k < vertex_count g div 3"
  shows "mesh_step g \<lparr> sum_volume = Fin v, sum_cx = Fin a, sum_cy = Fin b, sum_cz = Fin c \<rparr> k =
     \<lparr> sum_volume = Fin (v + tetra_term (triangles g ! k)),
       sum_cx = Fin (a + tetra_term (triangles g ! k) * tetra_cx (triangles g ! k)),
       sum_cy = Fin (b + tetra_term (triangles g ! k) * tetra_cy (triangles g ! k)),
       sum_cz = Fin (c + tetra_term (triangles g ! k) * tetra_cz (triangles g ! k)) \<rparr>"
proof -
  obtain p1 p2 p3 where t: "triangles g ! k = (p1, p2, p3)"
    by (cases "triangles g ! k") auto
  with assms have r: "read_triangle g (k * 3) = (vec3 p1, vec3 p2, vec3 p3)"
    using valid_mesh_read [OF assms] by (simp add: triangles_nth mult.commute)
  have c: "vx (vec3 p1) + vx (vec3 p2) + vx (vec3 p3) = Fin (4 * tetra_cx (p1, p2, p3))"
    "vy (vec3 p1) + vy (vec3 p2) + vy (vec3 p3) = Fin (4 * tetra_cy (p1, p2, p3))"
    "vz (vec3 p1) + vz (vec3 p2) + vz (vec3 p3) = Fin (4 * tetra_cz (p1, p2, p3))"
    by (cases p1; cases p2; cases p3; simp)+
  show ?thesis
    unfolding t mesh_step_def r
    by (simp add: signed_term_finite c Let_def
        del: vec3.simps vec3_sel tetra_term.simps tetra_cx.simps tetra_cy.simps tetra_cz.simps)
qed

lemma mesh_sums_prefix:
  assumes "valid_mesh g" and "n \<le> vertex_count g div 3"
  shows "foldl (mesh_step g)
           \<lparr> sum_volume = Fin 0, sum_cx = Fin 0, sum_cy = Fin 0, sum_cz = Fin 0 \<rparr> [0 ..< n] =
         \<lparr> sum_volume = Fin (signed_volume (take n (triangles g))),
           sum_cx = Fin (moment_x (take n (triangles g))),
           sum_cy = Fin (moment_y (take n (triangles g))),
           sum_cz = Fin (moment_z (take n (triangles g))) \<rparr>"
  using assms(2)
proof (induction n)
  case 0
  show ?case by (simp add: signed_volume_def moment_x_def moment_y_def moment_z_def)
next
  case (Suc n)
  then have n: "n < vertex_count g div 3" by simp
  then have tk: "take (Suc n) (triangles g) = take n (triangles g) @ [triangles g ! n]"
    by (simp add: take_Suc_conv_app_nth)
  from Suc n show ?case
    by (simp add: mesh_step_valid [OF assms(1) n] tk signed_volume_def moment_x_def moment_y_def
        moment_z_def del: tetra_term.simps)
qed

lemma mesh_sums_valid:
  assumes "valid_mesh g"
  shows "mesh_sums g =
         \<lparr> sum_volume = Fin (signed_volume (triangles g)),
           sum_cx = Fin (moment_x (triangles g)),
           sum_cy = Fin (moment_y (triangles g)),
           sum_cz = Fin (moment_z (triangles g)) \<rparr>"
  using mesh_sums_prefix [OF assms, of "vertex_count g div 3"]
  by (simp add: mesh_sums_def valid_face_numbers [OF assms])

text \<open>
  Claim C5: for every triangle mesh, indexed or flat, \<open>calculateMeshProperties\<close> returns
  what the reference definition gives: the signed term of a triangle is
  \<open>dot(p1, cross(p2, p3)) / 6\<close> (the expanded determinant of the code equals it), the
  volume is the absolute value of the sum of the terms, and the centroid is the sum of
  \<open>term * (p1 + p2 + p3) / 4\<close> divided by the signed sum.
\<close>

theorem calculateMeshProperties_integrateMesh:
  "valid_mesh g \<Longrightarrow> calculateMeshProperties g = integrateMesh g"
  by (simp add: calculateMeshProperties_def integrateMesh_def mesh_sums_valid Let_def)

theorem calculateMeshProperties_integrateMesh_witness:
  "valid_mesh cube \<and> calculateMeshProperties cube = integrateMesh cube \<and>
   integrateMesh cube = \<lparr> volume = Fin 8, cog = Vector3 (Fin 0) (Fin 0) (Fin 0) \<rparr>"
  using calculateMeshProperties_integrateMesh [OF valid_cube] valid_cube cube_properties
  by simp

section \<open>One pass of the inner loop\<close>

lemma clamp_Math:
  "lo \<le> hi \<Longrightarrow> Math_max (Fin lo) (Math_min (Fin hi) x) = clamp x (Fin lo) (Fin hi)"
  by (cases x) (auto simp: Math_max_def Math_min_def clamp_def)

lemma heaveStep_clamp: "heaveStep f = clamp (f * Fin (5 / 100000)) (Fin (- (5 / 10))) (Fin (5 / 10))"
  unfolding heaveStep_def by (rule clamp_Math) simp

lemma rotationStep_clamp: "rotationStep d = clamp (d * Fin (2 / 100)) (Fin (- (5 / 100))) (Fin (5 / 100))"
  unfolding rotationStep_def by (rule clamp_Math) simp

lemma clamp_positive:
  assumes "Fin 0 < d" and "0 < k" and "lo < 0" and "0 < hi"
  shows "\<exists>c. clamp (d * Fin k) (Fin lo) (Fin hi) = Fin c \<and> 0 < c \<and> c \<le> hi"
proof (cases d)
  case (Fin x)
  from Fin assms have "0 < x * k" by simp
  with assms have "\<not> x * k < lo" by linarith
  with Fin assms \<open>0 < x * k\<close> show ?thesis by (auto simp: clamp_def)
qed (use assms in \<open>auto simp: clamp_def\<close>)

text \<open>The updates one pass makes, for any mass and centre of gravity.\<close>

lemma solver_iteration_formula:
  "(let m = matrixWorld st;
        sub = calculateSubmergedProperties g m;
        cogWorld = applyMatrix4 cogLocal m;
        force = sub_volume sub * water * Fin (981 / 100) - tmass * Fin (981 / 100);
        dx = vx cogWorld - vx (center sub);
        dy = vy cogWorld - vy (center sub);
        st' = fst (solver_iteration g water tmass cogLocal st)
    in positionZ st' =
         positionZ st + clamp (force * Fin (5 / 100000)) (Fin (- (5 / 10))) (Fin (5 / 10)) * Fin (1 / 10) \<and>
       rotationX st' =
         rotationX st - clamp (dy * Fin (2 / 100)) (Fin (- (5 / 100))) (Fin (5 / 100)) * Fin (5 / 100) \<and>
       rotationY st' =
         rotationY st + clamp (dx * Fin (2 / 100)) (Fin (- (5 / 100))) (Fin (5 / 100)) * Fin (5 / 100) \<and>
       (Fin 0 < dy \<and> is_finite (rotationX st) \<longrightarrow> rotationX st' < rotationX st) \<and>
       (Fin 0 < dx \<and> is_finite (rotationY st) \<longrightarrow> rotationY st < rotationY st'))"
proof -
  define m where "m = matrixWorld st"
  define sub where "sub = calculateSubmergedProperties g m"
  define dx where "dx = vx (applyMatrix4 cogLocal m) - vx (center sub)"
  define dy where "dy = vy (applyMatrix4 cogLocal m) - vy (center sub)"
  define st' where "st' = fst (solver_iteration g water tmass cogLocal st)"
  have z: "positionZ st' = positionZ st +
      clamp ((sub_volume sub * water * Fin (981 / 100) - tmass * Fin (981 / 100)) * Fin (5 / 100000))
        (Fin (- (5 / 10))) (Fin (5 / 10)) * Fin (1 / 10)"
    by (simp add: st'_def solver_iteration_def Let_def heaveStep_clamp netForceZ_def GRAVITY_def
        DAMPING_TRANSLATION_def m_def sub_def)
  have rx: "rotationX st' = rotationX st -
      clamp (dy * Fin (2 / 100)) (Fin (- (5 / 100))) (Fin (5 / 100)) * Fin (5 / 100)"
    by (simp add: st'_def solver_iteration_def Let_def rotationStep_clamp DAMPING_ROTATION_def
        m_def sub_def dy_def)
  have ry: "rotationY st' = rotationY st +
      clamp (dx * Fin (2 / 100)) (Fin (- (5 / 100))) (Fin (5 / 100)) * Fin (5 / 100)"
    by (simp add: st'_def solver_iteration_def Let_def rotationStep_clamp DAMPING_ROTATION_def
        m_def sub_def dx_def)
  have pitch: "rotationX st' < rotationX st" if "Fin 0 < dy" "is_finite (rotationX st)"
  proof -
    from that(1) obtain c where "clamp (dy * Fin (2 / 100)) (Fin (- (5 / 100))) (Fin (5 / 100)) = Fin c"
      and "0 < c"
      using clamp_positive [of dy "2 / 100" "- (5 / 100)" "5 / 100"] by auto
    moreover from that(2) obtain r where "rotationX st = Fin r"
      by (auto simp: is_finite_iff)
    ultimately show ?thesis by (simp add: rx)
  qed
  have roll: "rotationY st < rotationY st'" if "Fin 0 < dx" "is_finite (rotationY st)"
  proof -
    from that(1) obtain c where "clamp (dx * Fin (2 / 100)) (Fin (- (5 / 100))) (Fin (5 / 100)) = Fin c"
      and "0 < c"
      using clamp_positive [of dx "2 / 100" "- (5 / 100)" "5 / 100"] by auto
    moreover from that(2) obtain r where "rotationY st = Fin r"
      by (auto simp: is_finite_iff)
    ultimately show ?thesis by (simp add: ry)
  qed
  from z rx ry pitch roll show ?thesis
    unfolding Let_def m_def sub_def dx_def dy_def st'_def by blast
qed

section \<open>Bounded steps and finite poses\<close>











lemma inner_state_useFrame: "inner_state props st MAX_ITERATIONS = fst (useFrame props st)"
  by (simp add: inner_state_def useFrame_def Let_def split: option.splits)

lemma inner_state_0: "inner_state props st 0 = st"
  by (simp add: inner_state_def split: option.splits)

lemma inner_state_Suc:
  assumes "meshGeometry props = Some g" and "targetRef props"
  shows "inner_state props st (Suc k) =
     fst (solver_iteration g (waterDensity props)
            (fst (mass_and_moment (baseProperties props) (weights props)))
            (combinedCOG_Local (baseProperties props) (weights props))
            (inner_state props st k))"
  using assms
  by (simp add: inner_state_def Let_def solver_pass_def split: prod.splits)

















section \<open>The passes of a frame\<close>

lemma weighted_props_inputs:
  "meshGeometry weighted_props = Some cube"
  "targetRef weighted_props"
  "waterDensity weighted_props = Fin 1025"
  "fst (mass_and_moment (baseProperties weighted_props) (weights weighted_props)) = Fin 3200"
  "combinedCOG_Local (baseProperties weighted_props) (weights weighted_props) = vec3 (1, 2, 0)"
  by (simp_all add: weighted_props_def scene_props_def derive_baseProps_def cube_properties
      combinedCOG_Local_def mass_and_moment_def add_weight_def add_def multiplyScalar_def
      divideScalar_def)

text \<open>
  Claim C6: in every pass of the inner loop of a frame, with the combined mass and the
  combined centre of gravity of the props, \<open>z\<close> changes by
  \<open>clamp(netForceZ * 0.00005, -0.5, 0.5) * 0.1\<close>, \<open>rx\<close> by minus
  \<open>clamp(dy * 0.02, -0.05, 0.05) * 0.05\<close> and \<open>ry\<close> by plus
  \<open>clamp(dx * 0.02, -0.05, 0.05) * 0.05\<close>, where \<open>dx\<close> and \<open>dy\<close> are the offsets of the
  world centre of gravity from the world centre of buoyancy. Hence a positive \<open>dy\<close>
  decreases the pitch and a positive \<open>dx\<close> increases the roll (of a finite angle). The
  passes start from the refs, and the refs after \<open>MAX_ITERATIONS\<close> passes are those the
  frame callback leaves.
\<close>

theorem inner_state_update:
  "inner_state props st 0 = st \<and>
   inner_state props st MAX_ITERATIONS = fst (useFrame props st) \<and>
   (meshGeometry props = Some g \<and> targetRef props \<longrightarrow>
     (let s = inner_state props st k;
          s' = inner_state props st (Suc k);
          m = matrixWorld s;
          sub = calculateSubmergedProperties g m;
          tmass = fst (mass_and_moment (baseProperties props) (weights props));
          cogWorld = applyMatrix4 (combinedCOG_Local (baseProperties props) (weights props)) m;
          force = sub_volume sub * waterDensity props * Fin (981 / 100) - tmass * Fin (981 / 100);
          dx = vx cogWorld - vx (center sub);
          dy = vy cogWorld - vy (center sub)
      in positionZ s' =
           positionZ s + clamp (force * Fin (5 / 100000)) (Fin (- (5 / 10))) (Fin (5 / 10)) * Fin (1 / 10) \<and>
         rotationX s' =
           rotationX s - clamp (dy * Fin (2 / 100)) (Fin (- (5 / 100))) (Fin (5 / 100)) * Fin (5 / 100) \<and>
         rotationY s' =
           rotationY s + clamp (dx * Fin (2 / 100)) (Fin (- (5 / 100))) (Fin (5 / 100)) * Fin (5 / 100) \<and>
         (Fin 0 < dy \<and> is_finite (rotationX s) \<longrightarrow> rotationX s' < rotationX s) \<and>
         (Fin 0 < dx \<and> is_finite (rotationY s) \<longrightarrow> rotationY s < rotationY s')))"
proof -
  have "(let s = inner_state props st k;
          s' = inner_state props st (Suc k);
          m = matrixWorld s;
          sub = calculateSubmergedProperties g m;
          tmass = fst (mass_and_moment (baseProperties props) (weights props));
          cogWorld = applyMatrix4 (combinedCOG_Local (baseProperties props) (weights props)) m;
          force = sub_volume sub * waterDensity props * Fin (981 / 100) - tmass * Fin (981 / 100);
          dx = vx cogWorld - vx (center sub);
          dy = vy cogWorld - vy (center sub)
      in positionZ s' =
           positionZ s + clamp (force * Fin (5 / 100000)) (Fin (- (5 / 10))) (Fin (5 / 10)) * Fin (1 / 10) \<and>
         rotationX s' =
           rotationX s - clamp (dy * Fin (2 / 100)) (Fin (- (5 / 100))) (Fin (5 / 100)) * Fin (5 / 100) \<and>
         rotationY s' =
           rotationY s + clamp (dx * Fin (2 / 100)) (Fin (- (5 / 100))) (Fin (5 / 100)) * Fin (5 / 100) \<and>
         (Fin 0 < dy \<and> is_finite (rotationX s) \<longrightarrow> rotationX s' < rotationX s) \<and>
         (Fin 0 < dx \<and> is_finite (rotationY s) \<longrightarrow> rotationY s < rotationY s'))"
    if "meshGeometry props = Some g" "targetRef props"
    unfolding Let_def inner_state_Suc [OF that]
    by (rule solver_iteration_formula [unfolded Let_def])
  then show ?thesis
    using inner_state_0 [of props st] inner_state_useFrame [of props st] by blast
qed

theorem inner_state_update_witness:
  "meshGeometry weighted_props = Some cube \<and> targetRef weighted_props \<and>
   Fin 0 < vx (applyMatrix4
               (combinedCOG_Local (baseProperties weighted_props) (weights weighted_props))
               (matrixWorld (inner_state weighted_props initial_refs 0))) -
           vx (center (calculateSubmergedProperties cube
                 (matrixWorld (inner_state weighted_props initial_refs 0)))) \<and>
   Fin 0 < vy (applyMatrix4
               (combinedCOG_Local (baseProperties weighted_props) (weights weighted_props))
               (matrixWorld (inner_state weighted_props initial_refs 0))) -
           vy (center (calculateSubmergedProperties cube
                 (matrixWorld (inner_state weighted_props initial_refs 0)))) \<and>
   is_finite (rotationX (inner_state weighted_props initial_refs 0)) \<and>
   is_finite (rotationY (inner_state weighted_props initial_refs 0)) \<and>
   positionZ (inner_state weighted_props initial_refs (Suc 0)) = Fin (8829 / 200000) \<and>
   rotationX (inner_state weighted_props initial_refs (Suc 0)) = Fin (- (2 / 1000)) \<and>
   rotationY (inner_state weighted_props initial_refs (Suc 0)) = Fin (1 / 1000) \<and>
   rotationX (inner_state weighted_props initial_refs (Suc 0)) <
     rotationX (inner_state weighted_props initial_refs 0) \<and>
   rotationY (inner_state weighted_props initial_refs 0) <
     rotationY (inner_state weighted_props initial_refs (Suc 0))"
proof -
  have pose: "positionZ initial_refs = Fin 0" "rotationX initial_refs = Fin 0"
    "rotationY initial_refs = Fin 0"
    by (simp_all add: initial_refs_def)
  show ?thesis
    using inner_state_update [of weighted_props initial_refs cube 0]
    by (simp add: Let_def inner_state_0 weighted_props_inputs matrixWorld_initial cube_submerged
        apply_identity clamp_def pose del: vec3.simps)
qed

section \<open>A combined centre of gravity that is not a number\<close>

lemma Math_clamp_NaN [simp]: "Math_max a (Math_min b NaN) = NaN"
  by (simp add: Math_max_def Math_min_def)

lemma iteration_NaN_cog:
  "rotationX (fst (solver_iteration g w tm (Vector3 NaN NaN NaN) st)) = NaN \<and>
   rotationY (fst (solver_iteration g w tm (Vector3 NaN NaN NaN) st)) = NaN"
  by (simp add: solver_iteration_def Let_def applyMatrix4_def rotationStep_def)

lemma upt_MAX: "[0 ..< MAX_ITERATIONS] = [0 ..< MAX_ITERATIONS - 1] @ [MAX_ITERATIONS - 1]"
  by (simp add: MAX_ITERATIONS_def) code_simp

lemma solver_pass_NaN_cog:
  "rotationX (fst (solver_pass g w tm (Vector3 NaN NaN NaN) acc i)) = NaN \<and>
   rotationY (fst (solver_pass g w tm (Vector3 NaN NaN NaN) acc i)) = NaN \<and>
   (i = MAX_ITERATIONS - 1 \<longrightarrow> snd (solver_pass g w tm (Vector3 NaN NaN NaN) acc i) \<noteq> None)"
proof -
  obtain st e where acc: "acc = (st, e)" by (cases acc)
  obtain st' r where it: "solver_iteration g w tm (Vector3 NaN NaN NaN) st = (st', r)"
    by (cases "solver_iteration g w tm (Vector3 NaN NaN NaN) st")
  with iteration_NaN_cog [of g w tm st] have "rotationX st' = NaN" "rotationY st' = NaN"
    by simp_all
  then show ?thesis by (simp add: solver_pass_def acc it)
qed

lemma useFrame_NaN_cog:
  assumes "meshGeometry props = Some g" and "targetRef props"
    and "combinedCOG_Local (baseProperties props) (weights props) = Vector3 NaN NaN NaN"
  shows "rotationX (fst (useFrame props st)) = NaN \<and> rotationY (fst (useFrame props st)) = NaN \<and>
         snd (useFrame props st) \<noteq> None"
  using assms solver_pass_NaN_cog [of g "waterDensity props"
      "fst (mass_and_moment (baseProperties props) (weights props))" _ "MAX_ITERATIONS - 1"]
  by (simp add: useFrame_def Let_def upt_MAX del: upt_Suc)

lemma flat_properties:
  "calculateMeshProperties flat_triangle = \<lparr> volume = Fin 0, cog = Vector3 NaN NaN NaN \<rparr>"
  by (simp add: calculateMeshProperties_def mesh_sums_def flat_triangle_def vertex_count_def
      face_numbers_def mesh_step_def Let_def read_triangle_def fromBufferAttribute_def
      signed_term_def)


section \<open>Skipped frames and the keyed solver\<close>

text \<open>
  Claim C2 as stated fails for a degenerate mesh: the frame callback only returns early
  when the mesh or the target group is absent. For the flat triangle (volume 0, hence mass
  0 and a centre of gravity of \<open>NaN\<close>) the frame runs, calls \<open>onUpdate\<close> and leaves both
  angles \<open>NaN\<close>.
\<close>

theorem useFrame_flat_triangle_not_skipped:
  "volume (calculateMeshProperties flat_triangle) = Fin 0 \<and>
   rotationX (fst (useFrame (scene_props flat_triangle (Fin 200)) initial_refs)) = NaN \<and>
   rotationY (fst (useFrame (scene_props flat_triangle (Fin 200)) initial_refs)) = NaN \<and>
   snd (useFrame (scene_props flat_triangle (Fin 200)) initial_refs) \<noteq> None"
proof -
  have "combinedCOG_Local (baseProperties (scene_props flat_triangle (Fin 200)))
          (weights (scene_props flat_triangle (Fin 200))) = Vector3 NaN NaN NaN"
    by (simp add: scene_props_def derive_baseProps_def flat_properties combinedCOG_Local_def
        mass_and_moment_def multiplyScalar_def divideScalar_def)
  from useFrame_NaN_cog [OF _ _ this, of flat_triangle initial_refs] show ?thesis
    by (simp add: scene_props_def flat_properties)
qed

text \<open>
  Claim C2, as amended: when the mesh is absent or the target group is not mounted, the
  frame callback is skipped entirely (the refs keep their values and \<open>onUpdate\<close> is not
  called); and when the key of the solver changes, as it does when a mesh with another
  uuid attaches, the solver is replaced by one whose pose is zero, so that the frame runs
  from the zero pose whatever the pose of the replaced solver was, while the solver keeps
  its pose as long as the key stays the same.
\<close>

theorem useFrame_skip_and_reset:
  "(meshGeometry props = None \<or> \<not> targetRef props \<longrightarrow> useFrame props st = (st, None)) \<and>
   (instance_key inst \<noteq> solver_key g \<longrightarrow>
      refs (render_Solver g inst) = initial_refs \<and>
      instance_key (render_Solver g inst) = solver_key g) \<and>
   (instance_key inst = solver_key g \<longrightarrow> render_Solver g inst = inst) \<and>
   (instance_key inst \<noteq> solver_key (meshGeometry props) \<longrightarrow>
      scene_frame props inst =
        scene_frame props
          \<lparr> instance_key = solver_key (meshGeometry props), refs = initial_refs \<rparr>)"
  by (auto simp: useFrame_def render_Solver_def scene_frame_def split: option.splits)

theorem useFrame_skip_and_reset_witness:
  "meshGeometry ((scene_props cube (Fin 200))\<lparr> meshGeometry := None \<rparr>) = None \<and>
   useFrame ((scene_props cube (Fin 200))\<lparr> meshGeometry := None \<rparr>)
       \<lparr> positionZ = Fin (- 1), rotationX = Fin (1 / 10), rotationY = Fin 0 \<rparr> =
     (\<lparr> positionZ = Fin (- 1), rotationX = Fin (1 / 10), rotationY = Fin 0 \<rparr>, None) \<and>
   instance_key \<lparr> instance_key = ''tetrahedron'',
       refs = \<lparr> positionZ = Fin (- 1), rotationX = Fin (1 / 10), rotationY = Fin 0 \<rparr> \<rparr>
     \<noteq> solver_key (Some cube) \<and>
   refs (render_Solver (Some cube)
       \<lparr> instance_key = ''tetrahedron'',
         refs = \<lparr> positionZ = Fin (- 1), rotationX = Fin (1 / 10), rotationY = Fin 0 \<rparr> \<rparr>) =
     initial_refs \<and>
   scene_frame (scene_props cube (Fin 200))
       \<lparr> instance_key = ''tetrahedron'',
         refs = \<lparr> positionZ = Fin (- 1), rotationX = Fin (1 / 10), rotationY = Fin 0 \<rparr> \<rparr> =
     scene_frame (scene_props cube (Fin 200))
       \<lparr> instance_key = ''cube'', refs = initial_refs \<rparr> \<and>
   instance_key \<lparr> instance_key = ''cube'',
       refs = \<lparr> positionZ = Fin (- 1), rotationX = Fin (1 / 10), rotationY = Fin 0 \<rparr> \<rparr>
     = solver_key (Some cube) \<and>
   render_Solver (Some cube)
       \<lparr> instance_key = ''cube'',
         refs = \<lparr> positionZ = Fin (- 1), rotationX = Fin (1 / 10), rotationY = Fin 0 \<rparr> \<rparr> =
     \<lparr> instance_key = ''cube'',
       refs = \<lparr> positionZ = Fin (- 1), rotationX = Fin (1 / 10), rotationY = Fin 0 \<rparr> \<rparr>"
proof -
  have key: "solver_key (Some cube) = ''cube''"
    by (simp add: solver_key_def cube_def)
  have mesh: "meshGeometry (scene_props cube (Fin 200)) = Some cube"
    by (simp add: scene_props_def)
  show ?thesis
    using useFrame_skip_and_reset [of "(scene_props cube (Fin 200))\<lparr> meshGeometry := None \<rparr>"
        "\<lparr> positionZ = Fin (- 1), rotationX = Fin (1 / 10), rotationY = Fin 0 \<rparr>"
        "\<lparr> instance_key = ''tetrahedron'',
           refs = \<lparr> positionZ = Fin (- 1), rotationX = Fin (1 / 10), rotationY = Fin 0 \<rparr> \<rparr>"
        "Some cube"]
      useFrame_skip_and_reset [of "scene_props cube (Fin 200)"
        "\<lparr> positionZ = Fin (- 1), rotationX = Fin (1 / 10), rotationY = Fin 0 \<rparr>"
        "\<lparr> instance_key = ''tetrahedron'',
           refs = \<lparr> positionZ = Fin (- 1), rotationX = Fin (1 / 10), rotationY = Fin 0 \<rparr> \<rparr>"
        "Some cube"]
      useFrame_skip_and_reset [of "(scene_props cube (Fin 200))\<lparr> meshGeometry := None \<rparr>"
        "\<lparr> positionZ = Fin (- 1), rotationX = Fin (1 / 10), rotationY = Fin 0 \<rparr>"
        "\<lparr> instance_key = ''cube'',
           refs = \<lparr> positionZ = Fin (- 1), rotationX = Fin (1 / 10), rotationY = Fin 0 \<rparr> \<rparr>"
        "Some cube"]
    by (simp add: key mesh)
qed

section \<open>Affine images of triangles\<close>













section \<open>Sums over the affine image of a closed mesh\<close>








section \<open>A mesh entirely below the water\<close>











section \<open>The tetrahedron\<close>












section \<open>The clipper against the integrator\<close>





end
